theory Spec2Isabelle
  imports Complex_Main
begin

section \<open>JavaScript values\<close>

text \<open>
  The library is TypeScript running in a browser. The values that flow through it are
  strings, booleans, numbers, arrays, file lists and \<open>undefined\<close>. Strings are modelled as
  \<open>string\<close>, one \<open>char\<close> per code unit; code units above 255 are not represented.

  A number is \<open>NaN\<close>, an infinity, or a finite value. Finite values are kept as exact
  rationals: the rounding of IEEE doubles (which only matters beyond \<open>2^53\<close>) is not
  modelled, and \<open>-0\<close> is identified with \<open>0\<close>, which compare alike.
\<close>

datatype jsnum = NaN | NegInf | Fin rat | PosInf

datatype jsval =
    Undefined
  | VBool bool
  | VNum jsnum
  | VStr string
  | VArr "jsval list"
  | VFiles "string list"

datatype js_error = TypeError | SyntaxError | InvalidStateError | Thrown string

text \<open>The relational operators on numbers: every comparison with \<open>NaN\<close> is false.\<close>

fun js_le :: "jsnum \<Rightarrow> jsnum \<Rightarrow> bool" where
  "js_le NaN _ = False"
| "js_le _ NaN = False"
| "js_le NegInf _ = True"
| "js_le _ PosInf = True"
| "js_le PosInf _ = False"
| "js_le _ NegInf = False"
| "js_le (Fin a) (Fin b) = (a \<le> b)"

definition js_ge :: "jsnum \<Rightarrow> jsnum \<Rightarrow> bool" where
  "js_ge a b = js_le b a"

text \<open>Truthiness, as \<open>if (x)\<close>, \<open>x || y\<close> and \<open>x ? y : z\<close> test it.\<close>

fun truthy :: "jsval \<Rightarrow> bool" where
  "truthy Undefined = False"
| "truthy (VBool b) = b"
| "truthy (VNum n) = (n \<noteq> NaN \<and> n \<noteq> Fin 0)"
| "truthy (VStr s) = (s \<noteq> [])"
| "truthy (VArr xs) = True"
| "truthy (VFiles fs) = True"

section \<open>Elements of the document\<close>

text \<open>
  The document is outside the library. An element is the record of what the library
  reads and writes of it: whether it is an \<open>HTMLElement\<close>, its \<open>type\<close>, \<open>name\<close> and
  \<open>value\<close> attributes, its \<open>value\<close> property, \<open>checked\<close> (the \<open>:checked\<close>
  pseudo-class), \<open>files\<close>, \<open>disabled\<close>, the dataset, the class list, the \<open>form-group\<close> and
  \<open>error-message\<close> attributes, \<open>innerHTML\<close> (kept as text), and what \<open>isVisible\<close> reads of
  the computed style: \<open>display\<close>, \<open>visibility\<close>, \<open>opacity\<close> and whether \<open>offsetParent\<close> is an
  element (\<open>True\<close>) or \<open>null\<close>. Every element has a dataset, as HTML and SVG elements
  do.

  What an assignment to the \<open>value\<close> property does depends on the element. The HTML
  standard gives the \<open>value\<close> of a control one of four modes, and an element without
  such a property takes the assignment as a plain property:
  \<^item> \<open>PlainProperty\<close>: the element has no \<open>value\<close> accessor (a \<open>div\<close>, an \<open>svg\<close> element);
    the assigned value is stored as it is, and \<open>value_prop\<close> is \<open>Undefined\<close> before;
  \<^item> \<open>ValueMode\<close>: text-like inputs, \<open>textarea\<close> and \<open>select\<close>; the assigned value is
    converted to a string and passed through the sanitisation of the control, the
    function \<open>sanitize\<close> of the element: a text input drops line breaks, a range input
    turns what is no number into its default, a colour input turns what is no colour
    into \<open>#000000\<close>, a \<open>select\<close> keeps only the value of one of its options;
  \<^item> \<open>AttributeMode\<close>: checkboxes, radio buttons, hidden inputs and buttons; the
    string is written to the \<open>value\<close> attribute, from which the property reads;
  \<^item> \<open>Filename\<close>: file inputs; the empty string empties the list of files, every other
    string raises an \<open>InvalidStateError\<close>.

  Elements whose \<open>value\<close> is a number (\<open>li\<close>, \<open>progress\<close>, \<open>meter\<close>) or writes the text
  content (\<open>output\<close>) are not modelled.
\<close>

datatype value_mode = PlainProperty | ValueMode | AttributeMode | Filename

record element =
  html :: bool
  type_prop :: string
  name_attr :: "string option"
  value_attr :: "string option"
  value_prop :: jsval
  value_mode :: value_mode
  sanitize :: "string \<Rightarrow> string"
  checked :: bool
  files :: jsval
  disabled :: bool
  dataset :: "(string \<times> string) list"
  classList :: "string list"
  form_group :: "string option"
  error_message :: "string option"
  innerHTML :: string
  display :: string
  visibility :: string
  opacity :: string
  offsetParent :: bool

section \<open>What the browser provides\<close>

text \<open>
  What the engine provides and the model leaves open:
  \<^item> regular expressions (\<open>new RegExp(p).test(s)\<close>, \<open>None\<close> when \<open>p\<close> does not compile);
  \<^item> the conversions between numbers and strings (\<open>Number(s)\<close>, \<open>String(n)\<close>);
  \<^item> the source text of a function, which is what \<open>String(f)\<close> gives, by the name the
    function is stored under;
  \<^item> what a query does with a selector text into which the code has spliced a name that
    the text neither reads literally nor is malformed by for certain (see the section
    on selectors): \<open>None\<close> when the text is malformed and the query raises a
    \<open>SyntaxError\<close>, and otherwise the positions of the elements that the text selects,
    in document order.

  Every function that reaches one of them takes the engine as its first argument, and
  every theorem holds for all engines.
\<close>

record engine =
  regexp_test :: "string \<Rightarrow> string \<Rightarrow> bool option"
  string_to_number :: "string \<Rightarrow> jsnum"
  number_to_string :: "jsnum \<Rightarrow> string"
  function_to_string :: "string \<Rightarrow> string"
  odd_selector :: "string \<Rightarrow> element list \<Rightarrow> nat list option"

fun join_with :: "string \<Rightarrow> string list \<Rightarrow> string" where
  "join_with sep [] = []"
| "join_with sep [x] = x"
| "join_with sep (x # y # ys) = x @ sep @ join_with sep (y # ys)"

text \<open>\<open>String(v)\<close>; an array joins its elements with commas, \<open>undefined\<close> elements as
  empty strings.\<close>

fun to_string :: "engine \<Rightarrow> jsval \<Rightarrow> string" where
  "to_string h Undefined = ''undefined''"
| "to_string h (VBool b) = (if b then ''true'' else ''false'')"
| "to_string h (VNum n) = number_to_string h n"
| "to_string h (VStr s) = s"
| "to_string h (VArr xs) =
     join_with '','' (map (\<lambda>x. if x = Undefined then [] else to_string h x) xs)"
| "to_string h (VFiles fs) = ''[object FileList]''"

text \<open>\<open>Number(v)\<close>, the conversion the relational operators apply to an operand.\<close>

fun to_number :: "engine \<Rightarrow> jsval \<Rightarrow> jsnum" where
  "to_number h Undefined = NaN"
| "to_number h (VBool b) = Fin (if b then 1 else 0)"
| "to_number h (VNum n) = n"
| "to_number h (VStr s) = string_to_number h s"
| "to_number h (VArr xs) = string_to_number h (to_string h (VArr xs))"
| "to_number h (VFiles fs) = string_to_number h (to_string h (VFiles fs))"

subsection \<open>Characters, \<open>trim\<close> and \<open>parseInt\<close>\<close>

definition code_unit :: "char \<Rightarrow> nat" where
  "code_unit c = of_char c"

definition is_digit :: "char \<Rightarrow> bool" where
  "is_digit c = (48 \<le> code_unit c \<and> code_unit c \<le> 57)"

definition digit_value :: "char \<Rightarrow> int" where
  "digit_value c = int (code_unit c) - 48"

text \<open>White space and line terminators of ECMAScript, among the code units below 256:
  tab, line feed, vertical tab, form feed, carriage return, space, no-break space.\<close>

definition is_space :: "char \<Rightarrow> bool" where
  "is_space c = (code_unit c \<in> {9, 10, 11, 12, 13, 32, 160})"

definition trim :: "string \<Rightarrow> string" where
  "trim s = rev (dropWhile is_space (rev (dropWhile is_space s)))"

definition is_hex_digit :: "char \<Rightarrow> bool" where
  "is_hex_digit c =
     (is_digit c \<or> (65 \<le> code_unit c \<and> code_unit c \<le> 70)
                \<or> (97 \<le> code_unit c \<and> code_unit c \<le> 102))"

definition hex_digit_value :: "char \<Rightarrow> int" where
  "hex_digit_value c =
     (if is_digit c then digit_value c
      else if code_unit c \<le> 70 then int (code_unit c) - 55
      else int (code_unit c) - 87)"

text \<open>
  \<open>parseInt(s)\<close> without a radix: skip leading white space, read an optional sign, switch
  to radix 16 after \<open>0x\<close> or \<open>0X\<close>, and read the longest prefix of digits; no digit gives
  \<open>NaN\<close>. Whatever follows the digits is ignored.
\<close>

definition parseInt :: "string \<Rightarrow> jsnum" where
  "parseInt s =
     (let t = dropWhile is_space s;
          sign = (if t \<noteq> [] \<and> hd t = CHR ''-'' then -1 else (1::int));
          u = (if t \<noteq> [] \<and> (hd t = CHR ''-'' \<or> hd t = CHR ''+'') then tl t else t);
          hex = (take 2 u = ''0x'' \<or> take 2 u = ''0X'');
          z = (if hex then takeWhile is_hex_digit (drop 2 u) else takeWhile is_digit u);
          n = (if hex then foldl (\<lambda>a c. 16 * a + hex_digit_value c) 0 z
               else foldl (\<lambda>a c. 10 * a + digit_value c) 0 z)
      in if z = [] then NaN else Fin (of_int (sign * n)))"

section \<open>The built-in validators (modules/validators.ts)\<close>

text \<open>
  A failing validator returns an object with a \<open>message\<close> and, for some validators, more
  properties; these are kept in \<open>payload\<close>, in the order of the object literal. A passing
  validator returns \<open>undefined\<close>, here \<open>None\<close>. A validator that raises returns \<open>Inl\<close>.
\<close>

record errordetail =
  message :: string
  payload :: "(string \<times> jsval) list"

type_synonym verdict = "js_error + errordetail option"

text \<open>The private \<open>#toNumber\<close>: the regular expression \<open>/[^\d.-]+/g\<close> removes every run
  of characters that are not a digit, a dot or a minus sign.\<close>

fun toNumber :: "jsval \<Rightarrow> jsnum" where
  "toNumber (VStr s) =
     parseInt (filter (\<lambda>c. is_digit c \<or> c = CHR ''.'' \<or> c = CHR ''-'') s)"
| "toNumber (VNum n) = n"
| "toNumber _ = Fin 0"

text \<open>\<open>required\<close> calls \<open>value.trim()\<close>. Only strings have a \<open>trim\<close> method: on every
  other value the call raises a \<open>TypeError\<close>.\<close>

fun Validators_required :: "jsval \<Rightarrow> verdict" where
  "Validators_required (VStr s) =
     (if trim s \<noteq> [] then Inr None
      else Inr (Some \<lparr>message = ''This field is required and cannot be left blank.'',
                       payload = []\<rparr>))"
| "Validators_required _ = Inl TypeError"

definition Validators_requiredTrue :: "jsval \<Rightarrow> verdict" where
  "Validators_requiredTrue v =
     (if truthy v then Inr None
      else Inr (Some \<lparr>message = ''You must check this box to proceed.'', payload = []\<rparr>))"

text \<open>\<open>new RegExp(regex)\<close> reads \<open>undefined\<close> as the empty pattern and raises a
  \<open>SyntaxError\<close> on a pattern that does not compile; \<open>test\<close> converts its argument to a
  string.\<close>

definition Validators_pattern :: "engine \<Rightarrow> jsval \<Rightarrow> jsval \<Rightarrow> verdict" where
  "Validators_pattern h v regex =
     (case regexp_test h (if regex = Undefined then [] else to_string h regex) (to_string h v) of
        None \<Rightarrow> Inl SyntaxError
      | Some status \<Rightarrow>
          if status then Inr None
          else Inr (Some \<lparr>message = ''The input does not match the required format.'',
                           payload = [(''pattern'', regex), (''value'', v)]\<rparr>))"

definition Validators_min :: "engine \<Rightarrow> jsval \<Rightarrow> jsval \<Rightarrow> verdict" where
  "Validators_min h v bound =
     (let NUMBER = toNumber v;
          status = js_ge NUMBER (to_number h bound)
      in if status then Inr None
         else Inr (Some \<lparr>message = ''The value must be greater than or equal to ''
                                      @ to_string h bound @ ''.'',
                          payload = [(''min'', bound), (''value'', v)]\<rparr>))"

definition Validators_max :: "engine \<Rightarrow> jsval \<Rightarrow> jsval \<Rightarrow> verdict" where
  "Validators_max h v bound =
     (let NUMBER = toNumber v;
          status = js_le NUMBER (to_number h bound)
      in if status then Inr None
         else Inr (Some \<lparr>message = ''The value must be less than or equal to ''
                                      @ to_string h bound @ ''.'',
                          payload = [(''max'', bound), (''value'', v)]\<rparr>))"

text \<open>\<open>value.length\<close>: reading a property of \<open>undefined\<close> raises; booleans and numbers
  have no \<open>length\<close>, so the read yields \<open>undefined\<close>.\<close>

fun get_length :: "jsval \<Rightarrow> js_error + jsval" where
  "get_length Undefined = Inl TypeError"
| "get_length (VStr s) = Inr (VNum (Fin (of_nat (length s))))"
| "get_length (VArr xs) = Inr (VNum (Fin (of_nat (length xs))))"
| "get_length (VFiles fs) = Inr (VNum (Fin (of_nat (length fs))))"
| "get_length _ = Inr Undefined"

definition Validators_minLength :: "engine \<Rightarrow> jsval \<Rightarrow> jsval \<Rightarrow> verdict" where
  "Validators_minLength h v bound =
     (case get_length v of
        Inl e \<Rightarrow> Inl e
      | Inr len \<Rightarrow>
          if js_ge (to_number h len) (to_number h bound) then Inr None
          else Inr (Some \<lparr>message = ''The input must be at least '' @ to_string h bound
                                       @ '' characters long.'',
                           payload = [(''minLength'', bound), (''value'', v)]\<rparr>))"

definition Validators_maxLength :: "engine \<Rightarrow> jsval \<Rightarrow> jsval \<Rightarrow> verdict" where
  "Validators_maxLength h v bound =
     (case get_length v of
        Inl e \<Rightarrow> Inl e
      | Inr len \<Rightarrow>
          if js_le (to_number h len) (to_number h bound) then Inr None
          else Inr (Some \<lparr>message = ''The input must not exceed '' @ to_string h bound
                                       @ '' characters.'',
                           payload = [(''maxLength'', bound), (''value'', v)]\<rparr>))"

text \<open>\<open>Validators[name](value, attributeValue)\<close>: the static method of that name; a name
  the class does not define is \<open>undefined\<close>, and calling it raises.\<close>

definition Validators :: "engine \<Rightarrow> string \<Rightarrow> jsval \<Rightarrow> jsval \<Rightarrow> verdict" where
  "Validators h name v attributeValue =
     (if name = ''required'' then Validators_required v
      else if name = ''requiredTrue'' then Validators_requiredTrue v
      else if name = ''pattern'' then Validators_pattern h v attributeValue
      else if name = ''min'' then Validators_min h v attributeValue
      else if name = ''max'' then Validators_max h v attributeValue
      else if name = ''minLength'' then Validators_minLength h v attributeValue
      else if name = ''maxLength'' then Validators_maxLength h v attributeValue
      else Inl TypeError)"

section \<open>The error resolver (services/error.ts)\<close>

text \<open>
  Modelled from the spec: the constant \<open>BUILT_IN_VALIDATORS\<close> is imported from
  \<open>constants/index.js\<close>, which is not among the sources. The spec names the fixed set of
  built-in validators: required, requiredTrue, pattern, min, max, minLength, maxLength.
\<close>

definition BUILT_IN_VALIDATORS :: "string list" where
  "BUILT_IN_VALIDATORS =
     [''required'', ''requiredTrue'', ''pattern'', ''min'', ''max'', ''minLength'', ''maxLength'']"

text \<open>
  A custom validator is a function of the value and the attribute's value. The registry,
  as the resolver is given it, maps the names the \<open>in\<close> operator finds in the object
  passed as \<open>config.validate\<close> to what calling them does; the section on the registry
  object says which names these are.
\<close>

type_synonym validator = "jsval \<Rightarrow> jsval \<Rightarrow> verdict"
type_synonym registry = "string \<Rightarrow> validator option"

text \<open>
  Invoking a validator is the one effect of the resolver: a custom validator is caller
  code. The model records every invocation, in order, and returns the record with the
  result, so that "this rule was not evaluated" is a statement about the record.
\<close>

datatype call = Builtin string | Custom string

text \<open>
  A \<open>dataset\<close> is the list of an element's \<open>data-*\<close> attributes, in attribute order, under
  their camel-case names; \<open>for (const validator in dataset)\<close> enumerates it in that order
  and \<open>dataset[k]\<close> is \<open>map_of dataset k\<close>. The loop of \<open>generateError\<close> runs over the
  remaining attributes and keeps the whole dataset, its parameter \<open>dataset'\<close>, for the
  message override.
\<close>

fun generateError_loop ::
  "engine \<Rightarrow> (string \<times> string) list \<Rightarrow> registry \<Rightarrow> jsval \<Rightarrow> (string \<times> string) list
     \<Rightarrow> call list \<times> verdict" where
  "generateError_loop h dataset' validations v [] = ([], Inr None)"
| "generateError_loop h dataset' validations v ((validator, attributeValue) # rest) =
     (if validator \<in> set BUILT_IN_VALIDATORS then
        (case Validators h validator v (VStr attributeValue) of
           Inl e \<Rightarrow> ([Builtin validator], Inl e)
         | Inr (Some error) \<Rightarrow>
             (case map_of dataset' (validator @ ''Message'') of
                Some customErrorMessage \<Rightarrow>
                  if customErrorMessage \<noteq> []
                  then ([Builtin validator], Inr (Some (error\<lparr>message := customErrorMessage\<rparr>)))
                  else ([Builtin validator], Inr (Some error))
              | None \<Rightarrow> ([Builtin validator], Inr (Some error)))
         | Inr None \<Rightarrow>
             (case generateError_loop h dataset' validations v rest of
                (calls, r) \<Rightarrow> (Builtin validator # calls, r)))
      else
        (case validations validator of
           Some f \<Rightarrow>
             (case f v (VStr attributeValue) of
                Inl e \<Rightarrow> ([Custom validator], Inl e)
              | Inr (Some error) \<Rightarrow>
                  (case map_of dataset' (validator @ ''Message'') of
                     Some customErrorMessage \<Rightarrow>
                       if customErrorMessage \<noteq> []
                       then ([Custom validator], Inr (Some (error\<lparr>message := customErrorMessage\<rparr>)))
                       else ([Custom validator], Inr (Some error))
                   | None \<Rightarrow> ([Custom validator], Inr (Some error)))
              | Inr None \<Rightarrow>
                  (case generateError_loop h dataset' validations v rest of
                     (calls, r) \<Rightarrow> (Custom validator # calls, r)))
         | None \<Rightarrow> generateError_loop h dataset' validations v rest))"

definition generateError :: "engine \<Rightarrow> (string \<times> string) list \<Rightarrow> registry \<Rightarrow> jsval
     \<Rightarrow> call list \<times> verdict" where
  "generateError h dataset' validations v = generateError_loop h dataset' validations v dataset'"

section \<open>The form\<close>

text \<open>
  A form is the list of the descendants of the form element in document order, and a
  field handle is a position in that list; the library never adds or removes elements.
\<close>

text \<open>The string of an attribute that the code tests for truthiness before using it: an
  absent attribute and an empty one are both falsy.\<close>

definition attr_str :: "string option \<Rightarrow> string" where
  "attr_str a = (case a of Some s \<Rightarrow> s | None \<Rightarrow> [])"

definition controlName :: "element \<Rightarrow> string" where
  "controlName e = attr_str (map_of (dataset e) ''controlName'')"

text \<open>\<open>dataset.k = v\<close>: the attribute keeps its place when it exists and is added last
  otherwise.\<close>

fun dataset_set :: "string \<Rightarrow> string \<Rightarrow> (string \<times> string) list \<Rightarrow> (string \<times> string) list" where
  "dataset_set k v [] = [(k, v)]"
| "dataset_set k v (p # ps) = (if fst p = k then (k, v) # ps else p # dataset_set k v ps)"

subsection \<open>Selectors\<close>

text \<open>
  A selector that tests an attribute for a value is a predicate on elements, and a query
  filters the form by it.
\<close>

definition querySelectorAll :: "(element \<Rightarrow> bool) \<Rightarrow> element list \<Rightarrow> nat list" where
  "querySelectorAll sel form = filter (\<lambda>i. sel (form ! i)) [0..<length form]"

definition querySelector :: "(element \<Rightarrow> bool) \<Rightarrow> element list \<Rightarrow> nat option" where
  "querySelector sel form =
     (case querySelectorAll sel form of [] \<Rightarrow> None | i # _ \<Rightarrow> Some i)"

definition sel_has_control_name :: "element \<Rightarrow> bool" where
  "sel_has_control_name e = (map_of (dataset e) ''controlName'' \<noteq> None)"

definition sel_control_name :: "string \<Rightarrow> element \<Rightarrow> bool" where
  "sel_control_name cn e = (map_of (dataset e) ''controlName'' = Some cn)"

definition sel_name_checked :: "string \<Rightarrow> element \<Rightarrow> bool" where
  "sel_name_checked cn e = (name_attr e = Some cn \<and> checked e)"

definition sel_form_group :: "string \<Rightarrow> element \<Rightarrow> bool" where
  "sel_form_group cn e = (form_group e = Some cn)"

definition sel_error_message :: "string \<Rightarrow> element \<Rightarrow> bool" where
  "sel_error_message cn e = (error_message e = Some cn)"

text \<open>
  The code builds the text of such a selector by splicing the control name into a
  template, between double quotes (\<open>getField\<close>), between single quotes (\<open>showError\<close>,
  \<open>hideError\<close>, \<open>addInvalidClass\<close>, \<open>removeInvalidClass\<close>) or bare (\<open>getRadioValue\<close>,
  \<open>getCheckboxValue\<close>, \<open>getFiles\<close>).
\<close>

datatype quoting = DoubleQuoted | SingleQuoted | Bare

definition quote_of :: "quoting \<Rightarrow> string" where
  "quote_of q = (case q of DoubleQuoted \<Rightarrow> [CHR 0x22] | SingleQuoted \<Rightarrow> [CHR 0x27] | Bare \<Rightarrow> [])"

definition selector_text :: "string \<Rightarrow> quoting \<Rightarrow> string \<Rightarrow> string \<Rightarrow> string" where
  "selector_text attr q n rest = ''['' @ attr @ ''='' @ quote_of q @ n @ quote_of q @ '']'' @ rest"

text \<open>
  The text selects the elements whose attribute equals the name when it reads the name
  literally. Between quotes that is so when the name has no quote of that kind, no
  backslash, no line break (line feed, form feed, carriage return) and no null
  character: by the grammar of CSS a string runs to the next quote of its kind, a
  backslash starts an escape, a line break ends the string badly and a null character is
  replaced (as is an unpaired surrogate, which is among the code units that are not
  represented here). A bare name is read literally when it is an identifier: letters, digits,
  hyphens and underscores of ASCII, not starting with a digit, nor with a hyphen that a
  digit follows or nothing follows.
\<close>

definition is_plain :: "char \<Rightarrow> bool" where
  "is_plain c = (c \<noteq> CHR 0x5C \<and> code_unit c \<noteq> 0 \<and> code_unit c \<noteq> 10 \<and> code_unit c \<noteq> 12
                 \<and> code_unit c \<noteq> 13)"

definition is_ident_start :: "char \<Rightarrow> bool" where
  "is_ident_start c =
     ((65 \<le> code_unit c \<and> code_unit c \<le> 90) \<or> (97 \<le> code_unit c \<and> code_unit c \<le> 122)
      \<or> c = CHR ''_'')"

definition is_ident_char :: "char \<Rightarrow> bool" where
  "is_ident_char c = (is_ident_start c \<or> is_digit c \<or> c = CHR ''-'')"

fun is_identifier :: "string \<Rightarrow> bool" where
  "is_identifier [] = False"
| "is_identifier [c] = is_ident_start c"
| "is_identifier (c # d # r) =
     ((is_ident_start c \<or> (c = CHR ''-'' \<and> (is_ident_start d \<or> d = CHR ''-'')))
      \<and> list_all is_ident_char (d # r))"

definition read_literally :: "quoting \<Rightarrow> string \<Rightarrow> bool" where
  "read_literally q n =
     (case q of
        DoubleQuoted \<Rightarrow> list_all (\<lambda>c. c \<noteq> CHR 0x22 \<and> is_plain c) n
      | SingleQuoted \<Rightarrow> list_all (\<lambda>c. c \<noteq> CHR 0x27 \<and> is_plain c) n
      | Bare \<Rightarrow> is_identifier n)"

text \<open>
  A name that is not read literally makes the text malformed, and the query raises a
  \<open>SyntaxError\<close>; or it makes the text another selector (a backslash escapes the
  character after it, a quote may be followed by more selector text), and the query
  selects by that one.

  The text is malformed for certain in these cases. Between quotes: the name has a
  quote of that kind, what precedes the first one is read literally, and only letters
  and digits of ASCII follow it, as in \<open>a"b\<close> between double quotes and \<open>o'brien\<close>
  between single quotes; the string then ends at that quote, and the closing quote of
  the template opens a second string, which the grammar of an attribute selector has
  no place for. Bare: the name is made of letters, digits, hyphens, underscores and
  dots and is no identifier, as in \<open>user.email\<close> and \<open>2fa\<close>; it is then read as a
  number, as a number with a unit or as more than one token, none of which is a value
  that the grammar accepts. For every other name the outcome is left to the engine.
\<close>

definition is_alnum :: "char \<Rightarrow> bool" where
  "is_alnum c =
     (is_digit c \<or> (65 \<le> code_unit c \<and> code_unit c \<le> 90) \<or> (97 \<le> code_unit c \<and> code_unit c \<le> 122))"

fun broken_string :: "char \<Rightarrow> string \<Rightarrow> bool" where
  "broken_string q [] = False"
| "broken_string q (c # r) =
     (if c = q then list_all is_alnum r else is_plain c \<and> broken_string q r)"

definition malformed :: "quoting \<Rightarrow> string \<Rightarrow> bool" where
  "malformed q n =
     (case q of
        DoubleQuoted \<Rightarrow> broken_string (CHR 0x22) n
      | SingleQuoted \<Rightarrow> broken_string (CHR 0x27) n
      | Bare \<Rightarrow> list_all (\<lambda>c. is_ident_char c \<or> c = CHR ''.'') n \<and> \<not> is_identifier n)"

text \<open>
  \<open>select_all\<close> is \<open>form.querySelectorAll\<close> on the text built from the attribute \<open>attr\<close>,
  the quoting, the name and what follows the bracket; \<open>sel\<close> is the predicate that the
  text stands for when the name is read literally. \<open>select_first\<close> is
  \<open>form.querySelector\<close>.
\<close>

definition select_all ::
  "engine \<Rightarrow> string \<Rightarrow> quoting \<Rightarrow> string \<Rightarrow> string \<Rightarrow> (element \<Rightarrow> bool) \<Rightarrow> element list
     \<Rightarrow> js_error + nat list" where
  "select_all h attr q n rest sel form =
     (if read_literally q n then Inr (querySelectorAll sel form)
      else if malformed q n then Inl SyntaxError
      else case odd_selector h (selector_text attr q n rest) form of
             None \<Rightarrow> Inl SyntaxError
           | Some found \<Rightarrow> Inr (filter (\<lambda>i. i < length form) found))"

definition select_first ::
  "engine \<Rightarrow> string \<Rightarrow> quoting \<Rightarrow> string \<Rightarrow> string \<Rightarrow> (element \<Rightarrow> bool) \<Rightarrow> element list
     \<Rightarrow> js_error + nat option" where
  "select_first h attr q n rest sel form =
     (case select_all h attr q n rest sel form of
        Inl e \<Rightarrow> Inl e
      | Inr [] \<Rightarrow> Inr None
      | Inr (i # _) \<Rightarrow> Inr (Some i))"

text \<open>An update of the element a query found; nothing when it found none.\<close>

fun modify :: "nat option \<Rightarrow> (element \<Rightarrow> element) \<Rightarrow> element list \<Rightarrow> element list" where
  "modify None f form = form"
| "modify (Some i) f form = form[i := f (form ! i)]"

definition classList_add :: "string \<Rightarrow> element \<Rightarrow> element" where
  "classList_add c e = (if c \<in> set (classList e) then e else e\<lparr>classList := classList e @ [c]\<rparr>)"

definition classList_remove :: "string \<Rightarrow> element \<Rightarrow> element" where
  "classList_remove c e = e\<lparr>classList := removeAll c (classList e)\<rparr>"

subsection \<open>Assignments to \<open>value\<close>\<close>

text \<open>\<open>field.value = s\<close> for a string \<open>s\<close>, and \<open>field.value = v\<close> for any value: every
  mode but the plain property converts the value to a string first.\<close>

definition assign_string :: "element \<Rightarrow> string \<Rightarrow> js_error + element" where
  "assign_string e s =
     (case value_mode e of
        PlainProperty \<Rightarrow> Inr (e\<lparr>value_prop := VStr s\<rparr>)
      | ValueMode \<Rightarrow> Inr (e\<lparr>value_prop := VStr (sanitize e s)\<rparr>)
      | AttributeMode \<Rightarrow> Inr (e\<lparr>value_attr := Some s, value_prop := VStr s\<rparr>)
      | Filename \<Rightarrow>
          if s = [] then Inr (e\<lparr>value_prop := VStr [], files := VFiles []\<rparr>)
          else Inl InvalidStateError)"

definition assign_value :: "engine \<Rightarrow> element \<Rightarrow> jsval \<Rightarrow> js_error + element" where
  "assign_value h e v =
     (case value_mode e of
        PlainProperty \<Rightarrow> Inr (e\<lparr>value_prop := v\<rparr>)
      | ValueMode \<Rightarrow> assign_string e (to_string h v)
      | AttributeMode \<Rightarrow> assign_string e (to_string h v)
      | Filename \<Rightarrow> assign_string e (to_string h v))"

subsection \<open>Visibility (services/helper.ts)\<close>

definition isVisible :: "element \<Rightarrow> bool" where
  "isVisible e =
     (if \<not> html e then False
      else display e \<noteq> ''none'' \<and> visibility e \<noteq> ''hidden'' \<and> opacity e \<noteq> ''0''
           \<and> offsetParent e)"

subsection \<open>Showing and hiding errors (services/error.ts)\<close>

text \<open>
  \<open>addInvalidClass\<close> and \<open>removeInvalidClass\<close> make both queries before they change a
  class, so a query that raises leaves the form as it was. \<open>showError\<close> and \<open>hideError\<close>
  run in a \<open>try\<close> block whose \<open>catch\<close> only logs: an error ends them, and what was
  changed before it stays changed.
\<close>

definition addInvalidClass :: "engine \<Rightarrow> string \<Rightarrow> element list \<Rightarrow> js_error + element list" where
  "addInvalidClass h cn form =
     (case select_first h ''form-group'' SingleQuoted cn [] (sel_form_group cn) form of
        Inl e \<Rightarrow> Inl e
      | Inr formGroupDOM \<Rightarrow>
          (case select_first h ''data-control-name'' SingleQuoted cn [] (sel_control_name cn) form of
             Inl e \<Rightarrow> Inl e
           | Inr fieldControlEL \<Rightarrow>
               Inr (modify fieldControlEL (classList_add ''rf-invalid'')
                      (modify formGroupDOM (classList_add ''rf-invalid'') form))))"

definition removeInvalidClass :: "engine \<Rightarrow> string \<Rightarrow> element list \<Rightarrow> js_error + element list" where
  "removeInvalidClass h cn form =
     (case select_first h ''form-group'' SingleQuoted cn [] (sel_form_group cn) form of
        Inl e \<Rightarrow> Inl e
      | Inr formGroupDOM \<Rightarrow>
          (case select_first h ''data-control-name'' SingleQuoted cn [] (sel_control_name cn) form of
             Inl e \<Rightarrow> Inl e
           | Inr fieldControlEL \<Rightarrow>
               Inr (modify fieldControlEL (classList_remove ''rf-invalid'')
                      (modify formGroupDOM (classList_remove ''rf-invalid'') form))))"

definition showError :: "engine \<Rightarrow> string \<Rightarrow> string \<Rightarrow> element list \<Rightarrow> element list" where
  "showError h msg cn form =
     (case addInvalidClass h cn form of
        Inl e \<Rightarrow> form
      | Inr form1 \<Rightarrow>
          (case select_first h ''error-message'' SingleQuoted cn [] (sel_error_message cn) form1 of
             Inl e \<Rightarrow> form1
           | Inr errorMessagePara \<Rightarrow> modify errorMessagePara (\<lambda>e. e\<lparr>innerHTML := msg\<rparr>) form1))"

definition hideError :: "engine \<Rightarrow> string \<Rightarrow> element list \<Rightarrow> element list" where
  "hideError h cn form =
     (case removeInvalidClass h cn form of
        Inl e \<Rightarrow> form
      | Inr form1 \<Rightarrow>
          (case select_first h ''error-message'' SingleQuoted cn [] (sel_error_message cn) form1 of
             Inl e \<Rightarrow> form1
           | Inr errorMessagePara \<Rightarrow> modify errorMessagePara (\<lambda>e. e\<lparr>innerHTML := []\<rparr>) form1))"

section \<open>Value extraction (services/value.ts)\<close>

text \<open>
  \<open>getRadioValue\<close>, \<open>getCheckboxValue\<close> and \<open>getFiles\<close> query the form with the control
  name spliced bare into the selector text. They are given here for a control name that
  the text reads literally, an identifier, and \<open>generateValue\<close> with them;
  \<open>extractValue\<close> below is \<open>generateValue\<close> for every control name.
\<close>

definition getRadioValue :: "element list \<Rightarrow> string \<Rightarrow> jsval" where
  "getRadioValue form cn =
     (case querySelector (sel_name_checked cn) form of
        None \<Rightarrow> VStr []
      | Some i \<Rightarrow> if truthy (value_prop (form ! i)) then value_prop (form ! i) else VStr [])"

definition getCheckboxValue :: "element list \<Rightarrow> string \<Rightarrow> jsval" where
  "getCheckboxValue form cn =
     (let selectedCheckboxInputs = querySelectorAll (sel_name_checked cn) form in
      if length selectedCheckboxInputs = 0 then VBool False
      else
        let values = map (\<lambda>i. if attr_str (value_attr (form ! i)) \<noteq> []
                                then value_prop (form ! i) else VBool True)
                         selectedCheckboxInputs
        in if length values \<noteq> 0 then VArr values else VBool True)"

text \<open>\<open>getFiles\<close> reads \<open>files\<close> of the first element with the control name; were there
  none, the read of a property of \<open>null\<close> would raise.\<close>

definition getFiles :: "element list \<Rightarrow> string \<Rightarrow> js_error + jsval" where
  "getFiles form cn =
     (case querySelector (sel_control_name cn) form of
        None \<Rightarrow> Inl TypeError
      | Some i \<Rightarrow> Inr (files (form ! i)))"

definition generateValue :: "element \<Rightarrow> element list \<Rightarrow> js_error + jsval" where
  "generateValue field form =
     (if controlName field = [] then Inr Undefined
      else if type_prop field = ''radio'' then Inr (getRadioValue form (controlName field))
      else if type_prop field = ''checkbox'' then Inr (getCheckboxValue form (controlName field))
      else if type_prop field = ''file'' then getFiles form (controlName field)
      else if truthy (value_prop field) then Inr (value_prop field)
      else Inr (VStr (attr_str (map_of (dataset field) ''value''))))"

text \<open>
  The three helpers on the elements that the query has selected, whatever the selector
  text was read as.
\<close>

definition radio_value_of :: "element list \<Rightarrow> nat list \<Rightarrow> jsval" where
  "radio_value_of form selected =
     (case selected of
        [] \<Rightarrow> VStr []
      | i # _ \<Rightarrow> if truthy (value_prop (form ! i)) then value_prop (form ! i) else VStr [])"

definition checkbox_value_of :: "element list \<Rightarrow> nat list \<Rightarrow> jsval" where
  "checkbox_value_of form selectedCheckboxInputs =
     (if length selectedCheckboxInputs = 0 then VBool False
      else
        let values = map (\<lambda>i. if attr_str (value_attr (form ! i)) \<noteq> []
                                then value_prop (form ! i) else VBool True)
                         selectedCheckboxInputs
        in if length values \<noteq> 0 then VArr values else VBool True)"

definition files_of :: "element list \<Rightarrow> nat list \<Rightarrow> js_error + jsval" where
  "files_of form selected =
     (case selected of [] \<Rightarrow> Inl TypeError | i # _ \<Rightarrow> Inr (files (form ! i)))"

text \<open>
  \<open>generateValue\<close> as the library calls it. A field without a control name has no value,
  and a field of another type than radio, checkbox and file makes no query. For these
  three types the query comes first; when it raises, so does \<open>generateValue\<close>.
\<close>

definition extractValue :: "engine \<Rightarrow> element \<Rightarrow> element list \<Rightarrow> js_error + jsval" where
  "extractValue h field form =
     (if controlName field = [] then Inr Undefined
      else if type_prop field = ''radio'' then
        (case select_all h ''name'' Bare (controlName field) '':checked''
                (sel_name_checked (controlName field)) form of
           Inl e \<Rightarrow> Inl e
         | Inr selected \<Rightarrow> Inr (radio_value_of form selected))
      else if type_prop field = ''checkbox'' then
        (case select_all h ''name'' Bare (controlName field) '':checked''
                (sel_name_checked (controlName field)) form of
           Inl e \<Rightarrow> Inl e
         | Inr selected \<Rightarrow> Inr (checkbox_value_of form selected))
      else if type_prop field = ''file'' then
        (case select_all h ''data-control-name'' Bare (controlName field) []
                (sel_control_name (controlName field)) form of
           Inl e \<Rightarrow> Inl e
         | Inr selected \<Rightarrow> files_of form selected)
      else if truthy (value_prop field) then Inr (value_prop field)
      else Inr (VStr (attr_str (map_of (dataset field) ''value''))))"

section \<open>The registry object\<close>

text \<open>
  The registry is the object passed as \<open>config.validate\<close>, or \<open>{}\<close>: a plain object. Its
  own properties are the custom validators; a property may also hold a value that is
  not a function. The resolver finds a rule with \<open>validator in validations\<close>, which
  also finds what a plain object inherits from \<open>Object.prototype\<close>, and calls
  \<open>validations[validator](value, attributeValue)\<close>, with the registry as \<open>this\<close>.
\<close>

datatype property = Callable validator | Plain jsval

type_synonym jsobject = "string \<Rightarrow> property option"

definition own_properties :: "registry \<Rightarrow> jsobject" where
  "own_properties reg = (\<lambda>n. map_option Callable (reg n))"

text \<open>
  What the resolver receives from a call that returns something truthy that is no error
  detail. An object without a \<open>message\<close> reads \<open>undefined\<close> there, which \<open>innerHTML\<close>
  shows as the text \<open>undefined\<close>, and takes the message override like an error detail. A
  primitive (a string, \<open>true\<close>) reads \<open>undefined\<close> as well, but the assignment of the
  override to it raises a \<open>TypeError\<close>, the code being a module and so strict: with a
  truthy override in the dataset \<open>ds\<close> of the field the call of rule \<open>n\<close> ends in that
  error.
\<close>

definition object_result :: verdict where
  "object_result = Inr (Some \<lparr>message = ''undefined'', payload = []\<rparr>)"

definition primitive_result :: "(string \<times> string) list \<Rightarrow> string \<Rightarrow> verdict" where
  "primitive_result ds n =
     (if attr_str (map_of ds (n @ ''Message'')) \<noteq> [] then Inl TypeError else object_result)"

text \<open>The property \<open>message\<close> of the registry itself, as \<open>innerHTML\<close> shows it.\<close>

definition registry_message :: "engine \<Rightarrow> jsobject \<Rightarrow> string" where
  "registry_message h obj =
     (case obj ''message'' of
        None \<Rightarrow> ''undefined''
      | Some (Plain x) \<Rightarrow> to_string h x
      | Some (Callable f) \<Rightarrow> function_to_string h ''message'')"

text \<open>
  The members of \<open>Object.prototype\<close>, as the validators they are when the resolver calls
  them on the registry \<open>obj\<close>:
  \<^item> \<open>valueOf\<close> returns the registry itself;
  \<^item> \<open>toString\<close> returns the string \<open>[object Object]\<close>, and \<open>toLocaleString\<close> calls the
    \<open>toString\<close> of the registry, which is its own property of that name when it has one;
  \<^item> \<open>constructor\<close> is \<open>Object\<close>, which returns an object for every argument;
  \<^item> \<open>hasOwnProperty\<close> and \<open>propertyIsEnumerable\<close> return whether the registry has an own
    property named by the value;
  \<^item> \<open>isPrototypeOf\<close> returns \<open>false\<close>;
  \<^item> \<open>__defineGetter__\<close> and \<open>__defineSetter__\<close> raise, the attribute's value being no
    function; \<open>__lookupGetter__\<close> and \<open>__lookupSetter__\<close> return a function for the
    accessor \<open>__proto__\<close> and \<open>undefined\<close> otherwise;
  \<^item> \<open>__proto__\<close> is an object, and calling it raises.

  The message override may add a \<open>message\<close> to the object that such a call returns. The
  model follows this for the registry, which the library holds; for another object (the
  wrapper \<open>Object\<close> returns, a file list, an accessor function) it does not.
\<close>

definition inherited ::
  "engine \<Rightarrow> jsobject \<Rightarrow> (string \<times> string) list \<Rightarrow> string \<Rightarrow> validator option" where
  "inherited h obj ds n =
     (if n = ''valueOf'' then
        Some (\<lambda>v a. Inr (Some \<lparr>message = registry_message h obj, payload = []\<rparr>))
      else if n = ''toString'' then Some (\<lambda>v a. primitive_result ds n)
      else if n = ''toLocaleString'' then
        Some (\<lambda>v a. case obj ''toString'' of
                       None \<Rightarrow> primitive_result ds n
                     | Some (Callable f) \<Rightarrow> f Undefined Undefined
                     | Some (Plain x) \<Rightarrow> Inl TypeError)
      else if n = ''constructor'' then Some (\<lambda>v a. object_result)
      else if n = ''hasOwnProperty'' \<or> n = ''propertyIsEnumerable'' then
        Some (\<lambda>v a. if obj (to_string h v) = None then Inr None else primitive_result ds n)
      else if n = ''isPrototypeOf'' then Some (\<lambda>v a. Inr None)
      else if n = ''__defineGetter__'' \<or> n = ''__defineSetter__'' then Some (\<lambda>v a. Inl TypeError)
      else if n = ''__lookupGetter__'' \<or> n = ''__lookupSetter__'' then
        Some (\<lambda>v a. if obj (to_string h v) = None \<and> to_string h v = ''__proto__''
                     then object_result else Inr None)
      else if n = ''__proto__'' then Some (\<lambda>v a. Inl TypeError)
      else None)"

text \<open>
  \<open>members h obj ds\<close> is the registry as the resolver sees it when it validates a field
  with the dataset \<open>ds\<close>: the names \<open>in\<close> finds, and what calling them does. An own
  property that is no function raises when it is called.
\<close>

definition members :: "engine \<Rightarrow> jsobject \<Rightarrow> (string \<times> string) list \<Rightarrow> registry" where
  "members h obj ds n =
     (case obj n of
        Some (Callable f) \<Rightarrow> Some f
      | Some (Plain x) \<Rightarrow> Some (\<lambda>v a. Inl TypeError)
      | None \<Rightarrow> inherited h obj ds n)"

text \<open>
  The registry after the resolver has run on a field with the dataset \<open>ds\<close> and invoked
  \<open>calls\<close>. The resolver returns at the first rule that reports an error; when that rule
  is the inherited \<open>valueOf\<close>, the error is the registry, and \<open>error.message =
  customErrorMessage\<close> writes the override of that rule to it.
\<close>

definition registry_after :: "jsobject \<Rightarrow> (string \<times> string) list \<Rightarrow> call list \<Rightarrow> jsobject" where
  "registry_after obj ds calls =
     (if calls \<noteq> [] \<and> last calls = Custom ''valueOf'' \<and> obj ''valueOf'' = None
         \<and> attr_str (map_of ds ''valueOfMessage'') \<noteq> []
      then obj(''message'' \<mapsto> Plain (VStr (attr_str (map_of ds ''valueOfMessage''))))
      else obj)"

section \<open>The form controller (modules/form-ninja.ts)\<close>

text \<open>
  The class has the fields \<open>form\<close>, \<open>errors\<close> (initialised to the empty object and never
  used) and \<open>validations\<close>, the registry object. The model adds \<open>invoked\<close>, the record of
  the validator invocations made so far. A method returns the state it leaves behind
  together with \<open>Inr\<close> for a normal return or \<open>Inl\<close> for the error it raises; what it
  changed before raising stays changed.
\<close>

record FormNinja =
  form :: "element list"
  errors :: "(string \<times> string) list"
  validations :: jsobject
  invoked :: "call list"

record FormNinjaConfig =
  validate_cfg :: "registry option"

record SetValueConfig =
  shouldValidate :: bool

text \<open>
  \<open>initialize\<close>: \<open>found\<close> is what \<open>document.querySelector(query)\<close> returns when it is an
  \<open>HTMLElement\<close>, given by the list of its descendants, and \<open>None\<close> otherwise. An omitted
  \<open>config\<close> is \<open>None\<close>, and so is an omitted \<open>config.validate\<close>; both leave the registry
  an object without own properties. The validators of a given \<open>config.validate\<close> are
  its own properties.
\<close>

definition initialize :: "element list option \<Rightarrow> FormNinjaConfig option \<Rightarrow> js_error + FormNinja" where
  "initialize found config =
     (case found of
        None \<Rightarrow> Inl TypeError
      | Some FORM_ELEMENT \<Rightarrow>
          Inr \<lparr>form = FORM_ELEMENT, errors = [],
               validations = (case config of
                                None \<Rightarrow> Map.empty
                              | Some c \<Rightarrow> (case validate_cfg c of
                                             None \<Rightarrow> Map.empty
                                           | Some r \<Rightarrow> own_properties r)),
               invoked = []\<rparr>)"

definition fields :: "FormNinja \<Rightarrow> nat list" where
  "fields st = querySelectorAll sel_has_control_name (form st)"

definition getField :: "engine \<Rightarrow> FormNinja \<Rightarrow> string \<Rightarrow> js_error + nat option" where
  "getField h st cn =
     select_first h ''data-control-name'' DoubleQuoted cn [] (sel_control_name cn) (form st)"

text \<open>\<open>resetField\<close> takes a control name or an element; an element that is not an
  \<open>HTMLElement\<close> is not reset. The control name is read after the staged value is set.\<close>

datatype control = ByName string | ByElement nat

definition resetField :: "engine \<Rightarrow> FormNinja \<Rightarrow> control \<Rightarrow> (js_error + unit) \<times> FormNinja" where
  "resetField h st c =
     (case (case c of
              ByName n \<Rightarrow> getField h st n
            | ByElement i \<Rightarrow> if i < length (form st) \<and> html (form st ! i) then Inr (Some i)
                             else Inr None) of
        Inl e \<Rightarrow> (Inl e, st)
      | Inr None \<Rightarrow> (Inr (), st)
      | Inr (Some i) \<Rightarrow>
          (case assign_string (form st ! i) [] of
             Inl e \<Rightarrow> (Inl e, st)
           | Inr e1 \<Rightarrow>
               let e2 = e1\<lparr>dataset := dataset_set ''value'' [] (dataset e1)\<rparr>;
                   form1 = (form st)[i := e2]
               in if controlName e2 \<noteq> []
                  then (Inr (), st\<lparr>form := hideError h (controlName e2) form1\<rparr>)
                  else (Inr (), st\<lparr>form := form1\<rparr>)))"

text \<open>\<open>forEach\<close> over the fields found when \<open>reset\<close> starts; an error would end it.\<close>

fun reset_loop :: "engine \<Rightarrow> FormNinja \<Rightarrow> nat list \<Rightarrow> (js_error + unit) \<times> FormNinja" where
  "reset_loop h st [] = (Inr (), st)"
| "reset_loop h st (field # rest) =
     (case resetField h st (ByElement field) of
        (Inl e, st') \<Rightarrow> (Inl e, st')
      | (Inr u, st') \<Rightarrow> reset_loop h st' rest)"

definition reset :: "engine \<Rightarrow> FormNinja \<Rightarrow> (js_error + unit) \<times> FormNinja" where
  "reset h st = reset_loop h st (fields st)"


text \<open>
  \<open>validateField\<close> is given a field handle. A position beyond the form stands for an
  argument that is no element: reading its \<open>dataset\<close> raises. The value is extracted
  first; then a disabled or hidden field that has a control name is cleared and left;
  every other field goes through the resolver, and only a field with a control name has
  the outcome shown or hidden.
\<close>

definition validateField :: "engine \<Rightarrow> FormNinja \<Rightarrow> nat \<Rightarrow> (js_error + unit) \<times> FormNinja" where
  "validateField h st i =
     (if length (form st) \<le> i then (Inl TypeError, st)
      else
        let field = form st ! i in
        case extractValue h field (form st) of
          Inl e \<Rightarrow> (Inl e, st)
        | Inr v \<Rightarrow>
            let isFieldDisabledOrHidden =
                  (disabled field \<or> map_of (dataset field) ''disabled'' = Some ''true''
                   \<or> \<not> isVisible field)
            in if isFieldDisabledOrHidden \<and> controlName field \<noteq> []
               then (Inr (), st\<lparr>form := hideError h (controlName field) (form st)\<rparr>)
               else
                 case generateError h (dataset field)
                        (members h (validations st) (dataset field)) v of
                   (calls, Inl e) \<Rightarrow> (Inl e, st\<lparr>invoked := invoked st @ calls\<rparr>)
                 | (calls, Inr error) \<Rightarrow>
                     let st1 = st\<lparr>validations := registry_after (validations st) (dataset field) calls,
                                  invoked := invoked st @ calls\<rparr>
                     in if controlName field = [] then (Inr (), st1)
                        else
                          (case error of
                             Some err \<Rightarrow>
                               (Inr (), st1\<lparr>form := showError h (message err) (controlName field)
                                                       (form st)\<rparr>)
                           | None \<Rightarrow>
                               (Inr (), st1\<lparr>form := hideError h (controlName field) (form st)\<rparr>)))"

text \<open>\<open>forEach\<close> over the fields found when \<open>validate\<close> starts; an error ends it.\<close>

fun validate_loop :: "engine \<Rightarrow> FormNinja \<Rightarrow> nat list \<Rightarrow> (js_error + unit) \<times> FormNinja" where
  "validate_loop h st [] = (Inr (), st)"
| "validate_loop h st (field # rest) =
     (case validateField h st field of
        (Inl e, st') \<Rightarrow> (Inl e, st')
      | (Inr u, st') \<Rightarrow> validate_loop h st' rest)"

definition validate :: "engine \<Rightarrow> FormNinja \<Rightarrow> (js_error + unit) \<times> FormNinja" where
  "validate h st = validate_loop h st (fields st)"

text \<open>
  \<open>setValue(name, value, config)\<close> assigns the value, stages its string in
  \<open>dataset.value\<close> and then reads \<open>config.shouldValidate\<close>, which raises when \<open>config\<close>
  was omitted (\<open>None\<close>).
\<close>

definition setValue ::
  "engine \<Rightarrow> FormNinja \<Rightarrow> string \<Rightarrow> jsval \<Rightarrow> SetValueConfig option
     \<Rightarrow> (js_error + unit) \<times> FormNinja" where
  "setValue h st n v config =
     (case getField h st n of
        Inl e \<Rightarrow> (Inl e, st)
      | Inr None \<Rightarrow> (Inr (), st)
      | Inr (Some i) \<Rightarrow>
          (case assign_value h (form st ! i) v of
             Inl e \<Rightarrow> (Inl e, st)
           | Inr e1 \<Rightarrow>
               let st1 = st\<lparr>form := (form st)[i := e1\<lparr>dataset := dataset_set ''value'' (to_string h v)
                                                                      (dataset e1)\<rparr>]\<rparr>
               in case config of
                    None \<Rightarrow> (Inl TypeError, st1)
                  | Some c \<Rightarrow> if shouldValidate c then validateField h st1 i else (Inr (), st1)))"

text \<open>\<open>update(values, config)\<close>: \<open>values\<close> is the list of the properties of the object in
  the order in which \<open>for ... in\<close> enumerates them.\<close>

fun update ::
  "engine \<Rightarrow> FormNinja \<Rightarrow> (string \<times> jsval) list \<Rightarrow> SetValueConfig option
     \<Rightarrow> (js_error + unit) \<times> FormNinja" where
  "update h st [] config = (Inr (), st)"
| "update h st ((cn, v) # rest) config =
     (case setValue h st cn v config of
        (Inl e, st') \<Rightarrow> (Inl e, st')
      | (Inr u, st') \<Rightarrow> update h st' rest config)"

text \<open>
  \<open>getValues\<close> returns one value when it is given a (truthy) control name and the
  object of all values otherwise. The object is the list of its properties in the order
  in which the language enumerates them: the keys that are array indices first, by
  number, then the other keys in the order in which they were added. An assignment to
  the key \<open>__proto__\<close> adds no property.
\<close>

datatype values_result = OneValue jsval | AllValues "(string \<times> jsval) list"

fun values_set :: "string \<Rightarrow> jsval \<Rightarrow> (string \<times> jsval) list \<Rightarrow> (string \<times> jsval) list" where
  "values_set k v [] = [(k, v)]"
| "values_set k v (p # ps) = (if fst p = k then (k, v) # ps else p # values_set k v ps)"

definition index_number :: "string \<Rightarrow> nat" where
  "index_number s = foldl (\<lambda>a c. 10 * a + (code_unit c - 48)) 0 s"

definition is_array_index :: "string \<Rightarrow> bool" where
  "is_array_index s =
     (s \<noteq> [] \<and> list_all is_digit s \<and> (s = ''0'' \<or> hd s \<noteq> CHR ''0'')
      \<and> index_number s < 4294967295)"

definition property_order :: "(string \<times> jsval) list \<Rightarrow> (string \<times> jsval) list" where
  "property_order ps =
     sort_key (\<lambda>p. index_number (fst p)) (filter (\<lambda>p. is_array_index (fst p)) ps)
     @ filter (\<lambda>p. \<not> is_array_index (fst p)) ps"

fun getValues_loop ::
  "engine \<Rightarrow> FormNinja \<Rightarrow> (string \<times> jsval) list \<Rightarrow> nat list \<Rightarrow> js_error + (string \<times> jsval) list" where
  "getValues_loop h st vals [] = Inr vals"
| "getValues_loop h st vals (i # rest) =
     (if controlName (form st ! i) \<noteq> [] then
        (case extractValue h (form st ! i) (form st) of
           Inl e \<Rightarrow> Inl e
         | Inr v \<Rightarrow>
             getValues_loop h st
               (if controlName (form st ! i) = ''__proto__'' then vals
                else values_set (controlName (form st ! i)) v vals) rest)
      else getValues_loop h st vals rest)"

definition getValues ::
  "engine \<Rightarrow> FormNinja \<Rightarrow> string option \<Rightarrow> (js_error + values_result) \<times> FormNinja" where
  "getValues h st cn =
     (if attr_str cn \<noteq> [] then
        (case getField h st (attr_str cn) of
           Inl e \<Rightarrow> (Inl e, st)
         | Inr None \<Rightarrow> (Inr (OneValue Undefined), st)
         | Inr (Some i) \<Rightarrow>
             (case extractValue h (form st ! i) (form st) of
                Inl e \<Rightarrow> (Inl e, st)
              | Inr v \<Rightarrow> (Inr (OneValue v), st)))
      else
        (case getValues_loop h st [] (fields st) of
           Inl e \<Rightarrow> (Inl e, st)
         | Inr vals \<Rightarrow> (Inr (AllValues (property_order vals)), st)))"

text \<open>\<open>trigger(controlName = null)\<close>: a falsy argument, \<open>null\<close> or the empty string,
  validates the whole form.\<close>

definition trigger :: "engine \<Rightarrow> FormNinja \<Rightarrow> string option \<Rightarrow> (js_error + unit) \<times> FormNinja" where
  "trigger h st cn =
     (if attr_str cn \<noteq> [] then
        (case getField h st (attr_str cn) of
           Inl e \<Rightarrow> (Inl e, st)
         | Inr None \<Rightarrow> (Inr (), st)
         | Inr (Some i) \<Rightarrow> validateField h st i)
      else validate h st)"

section \<open>Notions used to state the properties\<close>

text \<open>
  What one declared attribute does when the resolver reaches it: the validator it
  invokes, if its name is that of a rule, and the verdict. An attribute passes when it
  invokes nothing or the verdict is "no error".
\<close>

definition invoke ::
  "engine \<Rightarrow> registry \<Rightarrow> jsval \<Rightarrow> string \<Rightarrow> string \<Rightarrow> (call \<times> verdict) option" where
  "invoke h reg v n a =
     (if n \<in> set BUILT_IN_VALIDATORS then Some (Builtin n, Validators h n v (VStr a))
      else case reg n of
             Some f \<Rightarrow> Some (Custom n, f v (VStr a))
           | None \<Rightarrow> None)"

definition passes :: "engine \<Rightarrow> registry \<Rightarrow> jsval \<Rightarrow> string \<times> string \<Rightarrow> bool" where
  "passes h reg v p =
     (case invoke h reg v (fst p) (snd p) of None \<Rightarrow> True | Some (c, r) \<Rightarrow> r = Inr None)"

definition calls_of :: "engine \<Rightarrow> registry \<Rightarrow> jsval \<Rightarrow> (string \<times> string) list \<Rightarrow> call list" where
  "calls_of h reg v ps =
     List.map_filter (\<lambda>p. map_option fst (invoke h reg v (fst p) (snd p))) ps"


text \<open>
  What the queries of the library read of an element when the selector text reads the
  name literally: attributes it never writes. Two forms with the same keys, element by
  element, answer every such query alike.
\<close>

definition keys :: "element \<Rightarrow> string option \<times> string option \<times> string option \<times> bool" where
  "keys e = (map_of (dataset e) ''controlName'', form_group e, error_message e, html e)"

text \<open>
  \<open>cleaner e e'\<close>: \<open>e'\<close> is \<open>e\<close> after steps that only clear: classes were removed,
  \<open>innerHTML\<close>, the value or the staged value were emptied, and nothing else changed
  that the properties below look at.
\<close>

definition cleaner :: "element \<Rightarrow> element \<Rightarrow> bool" where
  "cleaner e e' =
     (keys e' = keys e
      \<and> value_mode e' = value_mode e
      \<and> sanitize e' = sanitize e
      \<and> set (classList e') \<subseteq> set (classList e)
      \<and> (innerHTML e' = [] \<or> innerHTML e' = innerHTML e)
      \<and> (value_prop e' = VStr [] \<or> value_prop e' = value_prop e)
      \<and> (map_of (dataset e') ''value'' = Some []
           \<or> map_of (dataset e') ''value'' = map_of (dataset e) ''value''))"

text \<open>
  No error is surfaced under the control name \<open>cn\<close>: the element that the name selects
  and the form group of that name are not marked \<open>rf-invalid\<close>, and the error paragraph
  of that name is empty. These are the three elements \<open>showError\<close> writes.
\<close>

definition error_cleared :: "string \<Rightarrow> element list \<Rightarrow> bool" where
  "error_cleared cn els =
     ((case querySelector (sel_control_name cn) els of
         None \<Rightarrow> True | Some p \<Rightarrow> ''rf-invalid'' \<notin> set (classList (els ! p)))
      \<and> (case querySelector (sel_form_group cn) els of
            None \<Rightarrow> True | Some p \<Rightarrow> ''rf-invalid'' \<notin> set (classList (els ! p)))
      \<and> (case querySelector (sel_error_message cn) els of
            None \<Rightarrow> True | Some p \<Rightarrow> innerHTML (els ! p) = []))"



text \<open>An enabled, visible field: the three tests of \<open>validateField\<close> for a disabled or
  hidden field all fail.\<close>

definition enabled_and_visible :: "element \<Rightarrow> bool" where
  "enabled_and_visible e =
     (if disabled e then False
      else if map_of (dataset e) ''disabled'' = Some ''true'' then False
      else isVisible e)"

section \<open>Example forms\<close>

text \<open>
  Closed examples need an engine. They use the rules \<open>required\<close> and \<open>requiredTrue\<close>,
  custom validators and the inherited \<open>valueOf\<close> only, and control names that the
  selector texts read literally or are malformed by for certain, none of which reaches
  the engine, so its choice does not matter: \<open>idle_engine\<close> compiles no pattern, reads
  no numeral and finds every selector text malformed.
\<close>

definition idle_engine :: engine where
  "idle_engine = \<lparr>regexp_test = (\<lambda>p s. None), string_to_number = (\<lambda>s. NaN),
                   number_to_string = (\<lambda>n. []), function_to_string = (\<lambda>n. []),
                   odd_selector = (\<lambda>t els. None)\<rparr>"

text \<open>The sanitisation of a text input removes line feeds and carriage returns.\<close>

definition strip_line_breaks :: "string \<Rightarrow> string" where
  "strip_line_breaks s = filter (\<lambda>c. code_unit c \<noteq> 10 \<and> code_unit c \<noteq> 13) s"

text \<open>A visible, enabled text input without attributes, from which the examples are
  built.\<close>

definition text_input :: element where
  "text_input = \<lparr>html = True, type_prop = ''text'', name_attr = None, value_attr = None,
                 value_prop = VStr [], value_mode = ValueMode, sanitize = strip_line_breaks,
                 checked = False, files = Undefined, disabled = False,
                 dataset = [], classList = [], form_group = None, error_message = None,
                 innerHTML = [], display = ''block'', visibility = ''visible'', opacity = ''1'',
                 offsetParent = True\<rparr>"

definition controller :: "element list \<Rightarrow> registry \<Rightarrow> FormNinja" where
  "controller els reg = \<lparr>form = els, errors = [], validations = own_properties reg, invoked = []\<rparr>"

text \<open>A checkbox \<open>agree\<close> without a \<open>value\<close> attribute, whose \<open>value\<close> property then reads
  \<open>on\<close>, declared \<open>data-required\<close>.\<close>

definition agree_box :: element where
  "agree_box = text_input\<lparr>type_prop := ''checkbox'', name_attr := Some ''agree'',
                           value_prop := VStr ''on'', value_mode := AttributeMode,
                           dataset := [(''controlName'', ''agree''), (''required'', [])]\<rparr>"

text \<open>An input that declares \<open>data-required\<close> and has no \<open>data-control-name\<close>.\<close>

definition nameless_required :: element where
  "nameless_required = text_input\<lparr>dataset := [(''required'', [])]\<rparr>"

text \<open>Two custom validators: one that always reports an error, one that never does.\<close>

definition always_fails :: validator where
  "always_fails v a = Inr (Some \<lparr>message = ''custom'', payload = [(''value'', v)]\<rparr>)"

definition never_fails :: validator where
  "never_fails v a = Inr None"







text \<open>An input without a control name that declares the custom rule \<open>check\<close>.\<close>

definition checked_input :: element where
  "checked_input = text_input\<lparr>dataset := [(''check'', [])]\<rparr>"

text \<open>The same input, natively disabled.\<close>

definition disabled_checked_input :: element where
  "disabled_checked_input = text_input\<lparr>disabled := True, dataset := [(''check'', [])]\<rparr>"

text \<open>A natively disabled input \<open><input disabled data-control-name="" data-required>\<close>:
  the attribute is there, so the input is among the fields, and its value is empty, so
  the input has no control name.\<close>

definition disabled_required_input :: element where
  "disabled_required_input =
     text_input\<lparr>disabled := True, dataset := [(''controlName'', []), (''required'', [])]\<rparr>"

text \<open>An input \<open><input data-control-name="x" data-value-of data-value-of-message="m">\<close>.\<close>

definition value_of_input :: element where
  "value_of_input =
     text_input\<lparr>dataset := [(''controlName'', ''x''), (''valueOf'', []), (''valueOfMessage'', ''m'')]\<rparr>"

section \<open>Properties\<close>

subsection \<open>Comparisons and conversions\<close>

lemma js_le_NaN_right: "js_le x NaN = False"
  by (cases x) simp_all

lemma toNumber_garbled: "toNumber (VStr ''abc'') = NaN"
  by (simp add: parseInt_def is_digit_def code_unit_def)

lemma NaN_fails_min_and_max:
  "toNumber v = NaN \<Longrightarrow>
     Validators_min h v b \<noteq> Inr None \<and> Validators_max h v b \<noteq> Inr None"
  by (simp add: Validators_min_def Validators_max_def js_ge_def js_le_NaN_right)

text \<open>
  C2. The claim: a string without a parseable number is compared as if it were 0, so
  \<open>max(v, b)\<close> passes exactly when \<open>0 \<le> b\<close> and \<open>min(v, b)\<close> passes when \<open>b \<le> 0\<close>. The code
  compares \<open>NaN\<close>: \<open>"abc"\<close> strips to the empty string, \<open>parseInt\<close> gives \<open>NaN\<close>, and
  \<open>max("abc", 10)\<close> and \<open>min("abc", 0)\<close> both fail, for every engine.
\<close>

theorem garbled_string_compares_as_NaN:
  "toNumber (VStr ''abc'') = NaN
   \<and> Validators_max h (VStr ''abc'') (VNum (Fin 10)) =
       Inr (Some \<lparr>message = ''The value must be less than or equal to ''
                              @ number_to_string h (Fin 10) @ ''.'',
                  payload = [(''max'', VNum (Fin 10)), (''value'', VStr ''abc'')]\<rparr>)
   \<and> Validators_min h (VStr ''abc'') (VNum (Fin 0)) =
       Inr (Some \<lparr>message = ''The value must be greater than or equal to ''
                              @ number_to_string h (Fin 0) @ ''.'',
                  payload = [(''min'', VNum (Fin 0)), (''value'', VStr ''abc'')]\<rparr>)"
  by (simp add: Validators_max_def Validators_min_def js_ge_def parseInt_def is_digit_def
                code_unit_def)

subsection \<open>Checkbox groups\<close>

lemma getCheckboxValue_none_checked:
  "querySelectorAll (sel_name_checked cn) els = [] \<Longrightarrow> getCheckboxValue els cn = VBool False"
  by (simp add: getCheckboxValue_def)

lemma getCheckboxValue_some_checked:
  "querySelectorAll (sel_name_checked cn) els \<noteq> [] \<Longrightarrow>
     getCheckboxValue els cn =
       VArr (map (\<lambda>i. if attr_str (value_attr (els ! i)) \<noteq> [] then value_prop (els ! i)
                      else VBool True)
                 (querySelectorAll (sel_name_checked cn) els))"
  by (simp add: getCheckboxValue_def Let_def)

lemma getCheckboxValue_never_True: "getCheckboxValue els cn \<noteq> VBool True"
  by (simp add: getCheckboxValue_def Let_def)

text \<open>
  C3. The claim: a checkbox group with one option checked that carries no explicit value
  yields the boolean \<open>true\<close>. The code yields the array \<open>[true]\<close>: the list of values is
  never empty once an option is checked, so the branch that returns \<open>true\<close> is dead, and
  \<open>getCheckboxValue\<close> returns \<open>true\<close> for no form at all.
\<close>

theorem checkbox_without_value_yields_array:
  "getCheckboxValue [agree_box\<lparr>checked := True\<rparr>] ''agree'' = VArr [VBool True]
   \<and> getCheckboxValue els cn \<noteq> VBool True"
  by (simp add: getCheckboxValue_def querySelectorAll_def sel_name_checked_def agree_box_def
                text_input_def attr_str_def Let_def)

subsection \<open>The \<open>required\<close> rule on values that are not strings\<close>

lemmas dom_defs = querySelectorAll_def querySelector_def sel_name_checked_def
  sel_control_name_def sel_has_control_name_def sel_form_group_def sel_error_message_def
  attr_str_def controlName_def isVisible_def

text \<open>
  C10. \<open>Validators.required\<close> raises exactly on the values that are not strings. Such
  values reach it through \<open>validateField\<close>: an enabled, visible checkbox that declares
  \<open>required\<close> and is not checked has the value \<open>false\<close>, and a field without a control
  name has no value; in both cases \<open>validateField\<close> raises a \<open>TypeError\<close> after invoking
  \<open>required\<close>, whatever the engine.
\<close>

theorem required_raises_unless_string:
  "((\<exists>e. Validators_required v = Inl e) = (\<forall>s. v \<noteq> VStr s))
   \<and> generateValue agree_box [agree_box] = Inr (VBool False)
   \<and> validateField h (controller [agree_box] Map.empty) 0 =
       (Inl TypeError, (controller [agree_box] Map.empty)\<lparr>invoked := [Builtin ''required'']\<rparr>)
   \<and> generateValue nameless_required [nameless_required] = Inr Undefined
   \<and> validateField h (controller [nameless_required] Map.empty) 0 =
       (Inl TypeError,
        (controller [nameless_required] Map.empty)\<lparr>invoked := [Builtin ''required'']\<rparr>)"
proof -
  have a: "(\<exists>e. Validators_required v = Inl e) = (\<forall>s. v \<noteq> VStr s)"
    by (cases v) auto
  have b: "generateValue agree_box [agree_box] = Inr (VBool False)"
    by (simp add: generateValue_def getCheckboxValue_def agree_box_def text_input_def dom_defs)
  have x: "extractValue h agree_box [agree_box] = Inr (VBool False)"
    by (simp add: extractValue_def select_all_def read_literally_def checkbox_value_of_def
                  is_ident_start_def is_ident_char_def is_digit_def code_unit_def
                  agree_box_def text_input_def dom_defs)
  have c: "validateField h (controller [agree_box] Map.empty) 0 =
       (Inl TypeError, (controller [agree_box] Map.empty)\<lparr>invoked := [Builtin ''required'']\<rparr>)"
    by (simp add: validateField_def x controller_def generateError_def)
       (simp add: agree_box_def text_input_def dom_defs BUILT_IN_VALIDATORS_def Validators_def
                  members_def inherited_def own_properties_def)
  have d: "generateValue nameless_required [nameless_required] = Inr Undefined"
    by (simp add: generateValue_def nameless_required_def text_input_def dom_defs)
  have y: "extractValue h nameless_required [nameless_required] = Inr Undefined"
    by (simp add: extractValue_def nameless_required_def text_input_def dom_defs)
  have e: "validateField h (controller [nameless_required] Map.empty) 0 =
       (Inl TypeError,
        (controller [nameless_required] Map.empty)\<lparr>invoked := [Builtin ''required'']\<rparr>)"
    by (simp add: validateField_def y controller_def generateError_def)
       (simp add: nameless_required_def text_input_def dom_defs BUILT_IN_VALIDATORS_def
                  Validators_def)
  from a b c d e show ?thesis by blast
qed

subsection \<open>The error resolver\<close>


lemma loop_all_pass:
  "list_all (passes h reg v) rest \<Longrightarrow>
     generateError_loop h ds reg v rest = (calls_of h reg v rest, Inr None)"
  by (induction rest)
     (auto simp: passes_def invoke_def calls_of_def List.map_filter_simps
           split: if_splits option.splits)










subsection \<open>Queries on a form\<close>

lemma querySelectorAll_cong:
  assumes "map sel els = map sel els'"
  shows "querySelectorAll sel els = querySelectorAll sel els'"
proof -
  have len: "length els = length els'"
    using assms by (rule map_eq_imp_length_eq)
  have "sel (els ! i) = sel (els' ! i)" if "i < length els" for i
    using assms that len by (metis nth_map)
  then show ?thesis
    unfolding querySelectorAll_def len [symmetric]
    by (intro filter_cong) auto
qed

lemma querySelectorAll_keys:
  assumes "map keys els = map keys els'"
  shows "querySelectorAll (\<lambda>e. g (keys e)) els = querySelectorAll (\<lambda>e. g (keys e)) els'"
proof -
  have "map (\<lambda>e. g (keys e)) els = map g (map keys els)" by simp
  also have "\<dots> = map g (map keys els')" using assms by simp
  also have "\<dots> = map (\<lambda>e. g (keys e)) els'" by simp
  finally show ?thesis by (rule querySelectorAll_cong)
qed

lemma sel_by_keys:
  "sel_control_name cn = (\<lambda>e. (\<lambda>k. fst k = Some cn) (keys e))"
  "sel_form_group cn = (\<lambda>e. (\<lambda>k. fst (snd k) = Some cn) (keys e))"
  "sel_error_message cn = (\<lambda>e. (\<lambda>k. fst (snd (snd k)) = Some cn) (keys e))"
  "sel_has_control_name = (\<lambda>e. (\<lambda>k. fst k \<noteq> None) (keys e))"
  by (auto simp: keys_def sel_control_name_def sel_form_group_def sel_error_message_def
                 sel_has_control_name_def fun_eq_iff)

lemma queries_same_keys:
  assumes "map keys els = map keys els'"
  shows "querySelector (sel_control_name cn) els = querySelector (sel_control_name cn) els'"
    and "querySelector (sel_form_group cn) els = querySelector (sel_form_group cn) els'"
    and "querySelector (sel_error_message cn) els = querySelector (sel_error_message cn) els'"
    and "querySelectorAll sel_has_control_name els = querySelectorAll sel_has_control_name els'"
  unfolding querySelector_def sel_by_keys
  using querySelectorAll_keys [OF assms, of "\<lambda>k. fst k = Some cn"]
        querySelectorAll_keys [OF assms, of "\<lambda>k. fst (snd k) = Some cn"]
        querySelectorAll_keys [OF assms, of "\<lambda>k. fst (snd (snd k)) = Some cn"]
        querySelectorAll_keys [OF assms, of "\<lambda>k. fst k \<noteq> None"]
  by simp_all

lemma querySelector_Some:
  assumes "querySelector sel els = Some p"
  shows "p < length els \<and> sel (els ! p)"
proof -
  from assms obtain rest where "querySelectorAll sel els = p # rest"
    by (auto simp: querySelector_def split: list.splits)
  then have "p \<in> set (filter (\<lambda>i. sel (els ! i)) [0..<length els])"
    by (simp add: querySelectorAll_def)
  then show ?thesis by simp
qed



subsection \<open>Updates of the element a query found\<close>

lemma length_modify: "length (modify q f els) = length els"
  by (cases q) simp_all

lemma nth_modify:
  "j < length els \<Longrightarrow> modify q f els ! j = (if q = Some j then f (els ! j) else els ! j)"
  by (cases q) (auto simp: nth_list_update)

lemma map_keys_modify:
  assumes "\<And>e. keys (f e) = keys e"
  shows "map keys (modify q f els) = map keys els"
  by (rule nth_equalityI) (auto simp: length_modify nth_modify assms)

lemma keys_classList_remove: "keys (classList_remove c e) = keys e"
  by (simp add: keys_def classList_remove_def)

lemma keys_innerHTML: "keys (e\<lparr>innerHTML := s\<rparr>) = keys e"
  by (simp add: keys_def)

subsection \<open>Queries with a name that is read literally\<close>

lemma select_first_literal:
  "read_literally q n \<Longrightarrow> select_first h attr q n rest sel els = Inr (querySelector sel els)"
  by (simp add: select_first_def select_all_def querySelector_def split: list.splits)

lemma select_first_bound:
  "select_first h attr q n rest sel els = Inr (Some p) \<Longrightarrow> p < length els"
proof -
  assume a: "select_first h attr q n rest sel els = Inr (Some p)"
  then obtain found where f: "select_all h attr q n rest sel els = Inr found" and p: "p \<in> set found"
    by (auto simp: select_first_def split: sum.splits list.splits)
  from f have "\<forall>i\<in>set found. i < length els"
    by (auto simp: select_all_def querySelectorAll_def split: if_splits option.splits)
  with p show ?thesis by blast
qed

lemma removeInvalidClass_literal:
  "read_literally SingleQuoted cn \<Longrightarrow>
     removeInvalidClass h cn els =
       Inr (modify (querySelector (sel_control_name cn) els) (classList_remove ''rf-invalid'')
              (modify (querySelector (sel_form_group cn) els) (classList_remove ''rf-invalid'') els))"
  by (simp add: removeInvalidClass_def select_first_literal)

lemma map_keys_removeInvalidClass:
  "removeInvalidClass h cn els = Inr els' \<Longrightarrow> map keys els' = map keys els"
  by (auto simp: removeInvalidClass_def map_keys_modify keys_classList_remove split: sum.splits)

lemma map_keys_hideError: "map keys (hideError h cn els) = map keys els"
  by (auto simp: hideError_def map_keys_modify keys_innerHTML map_keys_removeInvalidClass
           split: sum.splits)

lemma length_hideError: "length (hideError h cn els) = length els"
  using map_keys_hideError [of h cn els] by (metis length_map)

lemma hideError_nth:
  assumes "j < length els" and "read_literally SingleQuoted cn"
  shows "hideError h cn els ! j =
    (if querySelector (sel_error_message cn) els = Some j then (\<lambda>e. e\<lparr>innerHTML := []\<rparr>) else id)
      ((if querySelector (sel_control_name cn) els = Some j then classList_remove ''rf-invalid'' else id)
        ((if querySelector (sel_form_group cn) els = Some j then classList_remove ''rf-invalid'' else id)
           (els ! j)))"
proof -
  let ?els1 = "modify (querySelector (sel_control_name cn) els) (classList_remove ''rf-invalid'')
              (modify (querySelector (sel_form_group cn) els) (classList_remove ''rf-invalid'') els)"
  have r: "removeInvalidClass h cn els = Inr ?els1"
    using assms(2) by (rule removeInvalidClass_literal)
  have q: "querySelector (sel_error_message cn) ?els1 = querySelector (sel_error_message cn) els"
    by (rule queries_same_keys) (rule map_keys_removeInvalidClass [OF r])
  have l: "length ?els1 = length els"
    by (simp add: length_modify)
  have "hideError h cn els = modify (querySelector (sel_error_message cn) els) (\<lambda>e. e\<lparr>innerHTML := []\<rparr>) ?els1"
    by (simp add: hideError_def r select_first_literal [OF assms(2)] q)
  then show ?thesis
    using assms(1) by (simp add: l nth_modify length_modify)
qed
subsection \<open>Queries with a name that makes the selector text malformed\<close>

lemma malformed_not_literal: "malformed q n \<Longrightarrow> \<not> read_literally q n"
proof (cases q)
  case DoubleQuoted
  have "\<not> broken_string (CHR 0x22) n" if "list_all (\<lambda>c. c \<noteq> CHR 0x22 \<and> is_plain c) n"
    using that by (induction n) auto
  then show "malformed q n \<Longrightarrow> \<not> read_literally q n"
    using DoubleQuoted by (auto simp: malformed_def read_literally_def)
next
  case SingleQuoted
  have "\<not> broken_string (CHR 0x27) n" if "list_all (\<lambda>c. c \<noteq> CHR 0x27 \<and> is_plain c) n"
    using that by (induction n) auto
  then show "malformed q n \<Longrightarrow> \<not> read_literally q n"
    using SingleQuoted by (auto simp: malformed_def read_literally_def)
next
  case Bare
  then show "malformed q n \<Longrightarrow> \<not> read_literally q n"
    by (simp add: malformed_def read_literally_def)
qed

lemma select_all_malformed:
  "malformed q n \<Longrightarrow> select_all h attr q n rest sel els = Inl SyntaxError"
  by (simp add: select_all_def malformed_not_literal)

lemma select_first_malformed:
  "malformed q n \<Longrightarrow> select_first h attr q n rest sel els = Inl SyntaxError"
  by (simp add: select_first_def select_all_malformed)

text \<open>
  \<open>showError\<close> and \<open>hideError\<close> then do nothing: their first query raises inside the
  \<open>try\<close> block. So a field named \<open>o'brien\<close> is never marked and never cleared.
\<close>

lemma malformed_name_is_not_presented:
  assumes "malformed SingleQuoted cn"
  shows "showError h msg cn els = els" and "hideError h cn els = els"
  using assms
  by (simp_all add: showError_def hideError_def addInvalidClass_def removeInvalidClass_def
                    select_first_malformed)

text \<open>
  The value extraction of a radio button, a checkbox or a file input raises, and with
  it \<open>validateField\<close> and \<open>getValues\<close>, before a rule is evaluated. So it is for a
  checkbox named \<open>user.email\<close>.
\<close>

lemma malformed_name_has_no_value:
  assumes "malformed Bare (controlName field)" and "controlName field \<noteq> []"
      and "type_prop field = ''radio'' \<or> type_prop field = ''checkbox'' \<or> type_prop field = ''file''"
  shows "extractValue h field els = Inl SyntaxError"
  using assms by (auto simp: extractValue_def select_all_malformed)

subsection \<open>Steps that only clear\<close>




lemma map_of_dataset_set:
  "map_of (dataset_set k v ds) k' = (if k' = k then Some v else map_of ds k')"
  by (induction ds) auto



lemma cleaner_clear_value:
  "cleaner e (e\<lparr>value_prop := VStr [], dataset := dataset_set ''value'' [] (dataset e)\<rparr>)"
  by (simp add: cleaner_def keys_def map_of_dataset_set)






lemma error_cleared_hideError:
  assumes "read_literally SingleQuoted cn"
  shows "error_cleared cn (hideError h cn els)"
proof -
  have k: "map keys (hideError h cn els) = map keys els" by (rule map_keys_hideError)
  have a: "''rf-invalid'' \<notin> set (classList (hideError h cn els ! p))"
    if "querySelector (sel_control_name cn) els = Some p" for p
    using that querySelector_Some [OF that] assms
    by (simp add: hideError_nth classList_remove_def)
  have b: "''rf-invalid'' \<notin> set (classList (hideError h cn els ! p))"
    if "querySelector (sel_form_group cn) els = Some p" for p
    using that querySelector_Some [OF that] assms
    by (simp add: hideError_nth classList_remove_def)
  have c: "innerHTML (hideError h cn els ! p) = []"
    if "querySelector (sel_error_message cn) els = Some p" for p
    using that querySelector_Some [OF that] assms
    by (simp add: hideError_nth)
  show ?thesis
    by (simp add: error_cleared_def queries_same_keys [OF k] a b c split: option.splits)
qed







subsection \<open>\<open>reset\<close>\<close>





subsection \<open>Names that resolve to no field\<close>



lemma malformed_name_raises:
  assumes "getField h st n = Inl e"
  shows "setValue h st n v cfg = (Inl e, st)"
    and "resetField h st (ByName n) = (Inl e, st)"
    and "n \<noteq> [] \<Longrightarrow> getValues h st (Some n) = (Inl e, st)"
    and "n \<noteq> [] \<Longrightarrow> trigger h st (Some n) = (Inl e, st)"
  using assms
  by (simp_all add: setValue_def resetField_def getValues_def trigger_def attr_str_def)




subsection \<open>Value extraction with a name that is read literally\<close>

text \<open>
  For a field without a control name, a field whose control name is an identifier, and
  a field that is no radio button, checkbox or file input, \<open>extractValue\<close> is
  \<open>generateValue\<close>, whatever the engine.
\<close>

lemma extractValue_literal:
  assumes "controlName field = [] \<or> read_literally Bare (controlName field)
           \<or> (type_prop field \<noteq> ''radio'' \<and> type_prop field \<noteq> ''checkbox''
               \<and> type_prop field \<noteq> ''file'')"
  shows "extractValue h field els = generateValue field els"
  using assms
  by (auto simp: extractValue_def generateValue_def select_all_def getRadioValue_def
                 radio_value_of_def getCheckboxValue_def checkbox_value_of_def getFiles_def
                 files_of_def querySelector_def Let_def
           split: list.splits)

text \<open>\<open>reset\<close> returns normally on every form: the empty string can be assigned to every
  element, and \<open>hideError\<close> keeps the errors of its queries to itself.\<close>

lemma resetField_element_returns: "fst (resetField h st (ByElement i)) = Inr ()"
  by (simp add: resetField_def Let_def assign_string_def split: value_mode.splits)

lemma reset_loop_returns: "fst (reset_loop h st fs) = Inr ()"
proof (induction fs arbitrary: st)
  case Nil
  show ?case by simp
next
  case (Cons f fs)
  obtain r st' where v: "resetField h st (ByElement f) = (r, st')"
    by (cases "resetField h st (ByElement f)")
  have "r = Inr ()"
    using resetField_element_returns [of h st f] by (simp add: v)
  then show ?case
    using Cons.IH [of st'] by (simp add: v)
qed

lemma reset_returns: "fst (reset h st) = Inr ()"
  by (simp add: reset_def reset_loop_returns)

subsection \<open>\<open>validateField\<close> on disabled, hidden and nameless fields\<close>

text \<open>
  A disabled or hidden field that has a control name is skipped, as the comment in
  \<open>validateField\<close> says. When the value extraction returns (it raises on a radio
  button, checkbox or file input whose name makes the selector text malformed) and the
  field is natively disabled, carries \<open>data-disabled="true"\<close> or is not visible,
  \<open>validateField\<close> hides the error of the control name and returns: no validator is
  invoked and the registry is left alone. When the name is read literally between
  single quotes, no error is surfaced under it afterwards.
\<close>

lemma named_disabled_field_is_skipped:
  assumes "i < length (form st)"
      and "controlName (form st ! i) \<noteq> []"
      and "\<not> enabled_and_visible (form st ! i)"
      and "extractValue h (form st ! i) (form st) = Inr v"
  shows "validateField h st i =
           (Inr (), st\<lparr>form := hideError h (controlName (form st ! i)) (form st)\<rparr>)"
    and "read_literally SingleQuoted (controlName (form st ! i)) \<Longrightarrow>
           error_cleared (controlName (form st ! i)) (form (snd (validateField h st i)))"
proof -
  have d: "disabled (form st ! i) \<or> map_of (dataset (form st ! i)) ''disabled'' = Some ''true''
           \<or> \<not> isVisible (form st ! i)"
    using assms(3) by (auto simp: enabled_and_visible_def split: if_splits)
  show r: "validateField h st i =
           (Inr (), st\<lparr>form := hideError h (controlName (form st ! i)) (form st)\<rparr>)"
    using assms(1,2,4) d by (simp add: validateField_def Let_def)
  show "error_cleared (controlName (form st ! i)) (form (snd (validateField h st i)))"
    if "read_literally SingleQuoted (controlName (form st ! i))"
    using error_cleared_hideError [OF that] by (simp add: r)
qed

text \<open>
  C5. The claim, and the comment in the code ("If the field is disabled or hidden, clear
  any existing errors and skip validation"), have every disabled or hidden field
  skipped. The code skips it only when it has a control name: the test is
  \<open>isFieldDisabledOrHidden && dataset.controlName\<close>. A natively disabled input without a
  control name goes through the resolver, and its rule is evaluated; and \<open>validate()\<close>
  on a form with the disabled field \<open><input disabled data-control-name=""
  data-required>\<close> raises a \<open>TypeError\<close>, the rule \<open>required\<close> being evaluated on the
  absent value.
\<close>

theorem disabled_nameless_field_is_evaluated:
  "disabled (form (controller [disabled_checked_input] [''check'' \<mapsto> never_fails]) ! 0)
   \<and> validateField idle_engine (controller [disabled_checked_input] [''check'' \<mapsto> never_fails]) 0 =
       (Inr (), (controller [disabled_checked_input] [''check'' \<mapsto> never_fails])
                  \<lparr>invoked := [Custom ''check'']\<rparr>)
   \<and> disabled (form (controller [disabled_required_input] Map.empty) ! 0)
   \<and> fields (controller [disabled_required_input] Map.empty) = [0]
   \<and> validate idle_engine (controller [disabled_required_input] Map.empty) =
       (Inl TypeError, (controller [disabled_required_input] Map.empty)
                         \<lparr>invoked := [Builtin ''required'']\<rparr>)"
proof -
  have g: "extractValue idle_engine disabled_checked_input [disabled_checked_input] = Inr Undefined"
    by (simp add: extractValue_def disabled_checked_input_def text_input_def dom_defs)
  have e: "generateError idle_engine (dataset disabled_checked_input)
             (members idle_engine (own_properties [''check'' \<mapsto> never_fails])
                (dataset disabled_checked_input)) Undefined =
             ([Custom ''check''], Inr None)"
    by (simp add: generateError_def disabled_checked_input_def text_input_def
                  BUILT_IN_VALIDATORS_def never_fails_def members_def own_properties_def)
  have n: "controlName disabled_checked_input = []"
    by (simp add: disabled_checked_input_def text_input_def dom_defs)
  have a: "validateField idle_engine (controller [disabled_checked_input] [''check'' \<mapsto> never_fails]) 0 =
       (Inr (), (controller [disabled_checked_input] [''check'' \<mapsto> never_fails])
                  \<lparr>invoked := [Custom ''check'']\<rparr>)"
    by (simp add: validateField_def controller_def g e n registry_after_def)
  have f: "fields (controller [disabled_required_input] Map.empty) = [0]"
    by (simp add: fields_def controller_def disabled_required_input_def text_input_def dom_defs)
  have g2: "extractValue idle_engine disabled_required_input [disabled_required_input] = Inr Undefined"
    by (simp add: extractValue_def disabled_required_input_def text_input_def dom_defs)
  have n2: "controlName disabled_required_input = []"
    by (simp add: disabled_required_input_def text_input_def dom_defs)
  have e2: "generateError idle_engine (dataset disabled_required_input)
             (members idle_engine (own_properties Map.empty) (dataset disabled_required_input))
             Undefined = ([Builtin ''required''], Inl TypeError)"
    by (simp add: generateError_def disabled_required_input_def text_input_def
                  BUILT_IN_VALIDATORS_def Validators_def members_def own_properties_def
                  inherited_def)
  have b: "validate idle_engine (controller [disabled_required_input] Map.empty) =
       (Inl TypeError, (controller [disabled_required_input] Map.empty)
                         \<lparr>invoked := [Builtin ''required'']\<rparr>)"
    by (simp add: validate_def f) (simp add: validateField_def controller_def g2 e2 n2)
  show ?thesis
    using a b f by (simp add: controller_def disabled_checked_input_def
                              disabled_required_input_def text_input_def)
qed

text \<open>
  C6, as amended. For an enabled, visible field without a control name (absent or
  empty), value extraction yields \<open>undefined\<close>. \<open>validateField\<close> does not stop there: it
  runs the resolver on the declared rules with that value, and stops after it, before
  anything is shown or hidden. So the validators are invoked, an error a validator
  raises propagates, a reported error is dropped, and the form is left as it was.
\<close>

theorem nameless_field_is_resolved_not_presented:
  assumes "i < length (form st)"
      and "controlName (form st ! i) = []"
      and "enabled_and_visible (form st ! i)"
  shows "extractValue h (form st ! i) (form st) = Inr Undefined
         \<and> validateField h st i =
             (case generateError h (dataset (form st ! i))
                     (members h (validations st) (dataset (form st ! i))) Undefined of
                (calls, Inl e) \<Rightarrow> (Inl e, st\<lparr>invoked := invoked st @ calls\<rparr>)
              | (calls, Inr r) \<Rightarrow>
                  (Inr (), st\<lparr>validations := registry_after (validations st)
                                                (dataset (form st ! i)) calls,
                              invoked := invoked st @ calls\<rparr>))
         \<and> form (snd (validateField h st i)) = form st"
proof -
  have g: "extractValue h (form st ! i) (form st) = Inr Undefined"
    using assms(2) by (simp add: extractValue_def)
  have v: "validateField h st i =
             (case generateError h (dataset (form st ! i))
                     (members h (validations st) (dataset (form st ! i))) Undefined of
                (calls, Inl e) \<Rightarrow> (Inl e, st\<lparr>invoked := invoked st @ calls\<rparr>)
              | (calls, Inr r) \<Rightarrow>
                  (Inr (), st\<lparr>validations := registry_after (validations st)
                                                (dataset (form st ! i)) calls,
                              invoked := invoked st @ calls\<rparr>))"
    using assms(1,2) by (simp add: validateField_def g Let_def split: prod.splits sum.splits)
  have f: "form (snd (validateField h st i)) = form st"
    by (simp add: v split: prod.splits sum.splits)
  from g v f show ?thesis by simp
qed

theorem nameless_field_is_resolved_not_presented_witness:
  "0 < length (form (controller [checked_input] [''check'' \<mapsto> always_fails]))
   \<and> controlName (form (controller [checked_input] [''check'' \<mapsto> always_fails]) ! 0) = []
   \<and> enabled_and_visible (form (controller [checked_input] [''check'' \<mapsto> always_fails]) ! 0)
   \<and> generateError idle_engine (dataset checked_input)
        (members idle_engine (own_properties [''check'' \<mapsto> always_fails]) (dataset checked_input))
        Undefined =
       ([Custom ''check''], Inr (Some \<lparr>message = ''custom'', payload = [(''value'', Undefined)]\<rparr>))
   \<and> validateField idle_engine (controller [checked_input] [''check'' \<mapsto> always_fails]) 0 =
       (Inr (), (controller [checked_input] [''check'' \<mapsto> always_fails])
                  \<lparr>invoked := [Custom ''check'']\<rparr>)"
proof -
  let ?st = "controller [checked_input] [''check'' \<mapsto> always_fails]"
  have a: "0 < length (form ?st)" by (simp add: controller_def)
  have b: "controlName (form ?st ! 0) = []"
    by (simp add: controller_def checked_input_def text_input_def dom_defs)
  have c: "enabled_and_visible (form ?st ! 0)"
    by (simp add: controller_def checked_input_def text_input_def enabled_and_visible_def
                  isVisible_def)
  have e: "generateError idle_engine (dataset checked_input)
        (members idle_engine (own_properties [''check'' \<mapsto> always_fails]) (dataset checked_input))
        Undefined =
       ([Custom ''check''], Inr (Some \<lparr>message = ''custom'', payload = [(''value'', Undefined)]\<rparr>))"
    by (simp add: generateError_def checked_input_def text_input_def BUILT_IN_VALIDATORS_def
                  always_fails_def members_def own_properties_def)
  show ?thesis
    using a b c e nameless_field_is_resolved_not_presented [OF a b c, of idle_engine]
    by (simp add: controller_def registry_after_def)
qed

text \<open>
  The claim as it is written has \<open>validateField\<close> return for such a field without
  evaluating a rule. The custom rule of the enabled, visible input below is evaluated.
\<close>

theorem nameless_field_rules_are_evaluated:
  "controlName (form (controller [checked_input] [''check'' \<mapsto> never_fails]) ! 0) = []
   \<and> validateField idle_engine (controller [checked_input] [''check'' \<mapsto> never_fails]) 0 =
       (Inr (), (controller [checked_input] [''check'' \<mapsto> never_fails])
                  \<lparr>invoked := [Custom ''check'']\<rparr>)"
proof -
  have g: "extractValue idle_engine checked_input [checked_input] = Inr Undefined"
    by (simp add: extractValue_def checked_input_def text_input_def dom_defs)
  have e: "generateError idle_engine (dataset checked_input)
             (members idle_engine (own_properties [''check'' \<mapsto> never_fails]) (dataset checked_input))
             Undefined = ([Custom ''check''], Inr None)"
    by (simp add: generateError_def checked_input_def text_input_def
                  BUILT_IN_VALIDATORS_def never_fails_def members_def own_properties_def)
  have n: "controlName checked_input = []"
    by (simp add: checked_input_def text_input_def dom_defs)
  show ?thesis
    by (simp add: validateField_def controller_def g e n registry_after_def)
qed

subsection \<open>The registry\<close>

text \<open>
  \<open>reset\<close>, \<open>resetField\<close> and \<open>getValues\<close> leave the registry as it is, and so does
  \<open>validateField\<close> on a field without a truthy \<open>data-value-of-message\<close>.
\<close>

lemma validations_resetField: "validations (snd (resetField h st c)) = validations st"
  by (simp add: resetField_def Let_def split: sum.splits option.splits control.splits)

lemma validations_reset_loop: "validations (snd (reset_loop h st fs)) = validations st"
proof (induction fs arbitrary: st)
  case Nil
  show ?case by simp
next
  case (Cons f fs)
  obtain r st' where v: "resetField h st (ByElement f) = (r, st')"
    by (cases "resetField h st (ByElement f)")
  have "validations st' = validations st"
    using validations_resetField [of h st "ByElement f"] by (simp add: v)
  then show ?case
    using Cons.IH [of st'] by (cases r) (simp_all add: v)
qed

lemma validations_reset: "validations (snd (reset h st)) = validations st"
  by (simp add: reset_def validations_reset_loop)

lemma validations_getValues: "validations (snd (getValues h st cn)) = validations st"
  by (simp add: getValues_def split: option.splits sum.splits)

lemma validations_validateField:
  assumes "attr_str (map_of (dataset (form st ! i)) ''valueOfMessage'') = []"
  shows "validations (snd (validateField h st i)) = validations st"
  using assms
  by (simp add: validateField_def Let_def registry_after_def
           split: sum.splits prod.splits option.splits)

text \<open>
  C9. The claim, and the comments in the code ("Stores custom validation rules", "Check
  if the validator is a custom validation"), have the registry hold the custom
  validators of the configuration and nothing write to it. The code looks a rule up
  with \<open>validator in validations\<close>, which also finds what every object inherits. On a
  form with the input \<open><input data-control-name="x" data-value-of
  data-value-of-message="m">\<close> and no configuration, the registry starts without a
  property; \<open>validate()\<close> takes the attribute \<open>data-value-of\<close> for a rule, calls the
  inherited \<open>valueOf\<close>, which returns the registry itself, and writes the message
  override to it: afterwards the registry has the property \<open>message\<close>, and the field is
  marked invalid.
\<close>

theorem inherited_valueOf_writes_the_registry:
  "initialize (Some [value_of_input]) None = Inr (controller [value_of_input] Map.empty)
   \<and> validations (controller [value_of_input] Map.empty) = Map.empty
   \<and> validate idle_engine (controller [value_of_input] Map.empty) =
       (Inr (), \<lparr>form = [value_of_input\<lparr>classList := [''rf-invalid'']\<rparr>], errors = [],
                 validations = [''message'' \<mapsto> Plain (VStr ''m'')],
                 invoked = [Custom ''valueOf'']\<rparr>)"
proof -
  have i: "initialize (Some [value_of_input]) None = Inr (controller [value_of_input] Map.empty)"
    by (simp add: initialize_def controller_def own_properties_def)
  have o: "validations (controller [value_of_input] Map.empty) = Map.empty"
    by (simp add: controller_def own_properties_def)
  have f: "fields (controller [value_of_input] Map.empty) = [0]"
    by (simp add: fields_def controller_def value_of_input_def text_input_def dom_defs)
  have l: "read_literally SingleQuoted ''x''"
    by (simp add: read_literally_def is_plain_def code_unit_def)
  have g: "extractValue idle_engine value_of_input [value_of_input] = Inr (VStr [])"
    by (simp add: extractValue_def value_of_input_def text_input_def dom_defs)
  have e: "generateError idle_engine (dataset value_of_input)
             (members idle_engine Map.empty (dataset value_of_input)) (VStr []) =
             ([Custom ''valueOf''], Inr (Some \<lparr>message = ''m'', payload = []\<rparr>))"
    by (simp add: generateError_def value_of_input_def text_input_def BUILT_IN_VALIDATORS_def
                  members_def inherited_def registry_message_def)
  have r: "registry_after Map.empty (dataset value_of_input) [Custom ''valueOf''] =
             [''message'' \<mapsto> Plain (VStr ''m'')]"
    by (simp add: registry_after_def value_of_input_def text_input_def attr_str_def)
  have v: "validateField idle_engine (controller [value_of_input] Map.empty) 0 =
       (Inr (), \<lparr>form = [value_of_input\<lparr>classList := [''rf-invalid'']\<rparr>], errors = [],
                 validations = [''message'' \<mapsto> Plain (VStr ''m'')],
                 invoked = [Custom ''valueOf'']\<rparr>)"
    by (simp add: validateField_def controller_def own_properties_def g e r)
       (simp add: value_of_input_def text_input_def dom_defs showError_def addInvalidClass_def
                  select_first_literal [OF l] classList_add_def)
  show ?thesis
    by (simp add: i o validate_def f v)
qed

end
